theory Spec2Isabelle
  imports Complex_Main
begin

section \<open>The console page of the realtime voice client\<close>

text \<open>
  The development follows \<^verbatim>\<open>src/pages/ConsolePage.tsx\<close>. React state is passed
  explicitly: a functional update \<^verbatim>\<open>setX(prev => f(prev))\<close> is the function \<open>f\<close> on
  the state component. Calls into the vendor SDK, the wav tools and the browser are not
  part of the page: each one is an entry of a trace, and what it answers (or whether it
  throws) is an input of the model.
\<close>

subsection \<open>The set_memory tool\<close>

text \<open>
  \<^verbatim>\<open>memoryKv\<close> is a plain JavaScript object used as a dictionary from strings to
  strings (the tool's schema declares \<^verbatim>\<open>key\<close> and \<^verbatim>\<open>value\<close> as strings). Its own
  properties are a map. The copy \<^verbatim>\<open>{ ...memoryKv }\<close> is again a plain object with
  the same own properties, whose prototype is \<^verbatim>\<open>Object.prototype\<close>.

  The assignment \<^verbatim>\<open>newKv[key] = value\<close> creates or overwrites the own property
  \<^verbatim>\<open>key\<close>, with one exception of the language: \<^verbatim>\<open>__proto__\<close> is an accessor
  inherited from \<^verbatim>\<open>Object.prototype\<close>, so the assignment runs its setter, which
  ignores a value that is neither an object nor null. A string assigned to
  \<^verbatim>\<open>__proto__\<close> therefore leaves the object as it was.
\<close>

type_synonym kv = "string \<rightharpoonup> string"

definition assign_property :: "kv \<Rightarrow> string \<Rightarrow> string \<Rightarrow> kv" where
  "assign_property obj key v = (if key = ''__proto__'' then obj else obj(key \<mapsto> v))"

text \<open>The state updater passed to \<^verbatim>\<open>setMemoryKv\<close>.\<close>

definition setMemoryKv_updater :: "string \<Rightarrow> string \<Rightarrow> kv \<Rightarrow> kv" where
  "setMemoryKv_updater key v memoryKv = (let newKv = memoryKv in assign_property newKv key v)"

record tool_result =
  ok :: bool

text \<open>The handler registered for \<^verbatim>\<open>set_memory\<close>: the new state and the value returned.\<close>

definition set_memory :: "string \<Rightarrow> string \<Rightarrow> kv \<Rightarrow> kv \<times> tool_result" where
  "set_memory key v memoryKv = (setMemoryKv_updater key v memoryKv, \<lparr>ok = True\<rparr>)"

subsection \<open>The event log\<close>

text \<open>
  The payload of an event is declared \<^verbatim>\<open>{ [key: string]: any }\<close>. The reducer reads
  only \<^verbatim>\<open>event.type\<close>, tests it for truthiness and compares it with \<^verbatim>\<open>===\<close>, so
  the values are the primitive values of the language, on which \<^verbatim>\<open>===\<close> is equality
  (the number NaN is left out: it is falsy, and the comparison is never reached with it).
\<close>

datatype jsval = JUndefined | JNull | JBool bool | JNum int | JStr string

fun truthy :: "jsval \<Rightarrow> bool" where
  "truthy JUndefined = False"
| "truthy JNull = False"
| "truthy (JBool b) = b"
| "truthy (JNum n) = (n \<noteq> 0)"
| "truthy (JStr s) = (s \<noteq> [])"

datatype event_source = Client | Server

record RealtimeEvent =
  time :: string
  source :: event_source
  count :: "int option"
  event :: "(string \<rightharpoonup> jsval) option"

text \<open>\<^verbatim>\<open>e?.event?.type\<close>: undefined when the entry, its payload or the property is absent.\<close>

definition event_type :: "RealtimeEvent option \<Rightarrow> jsval" where
  "event_type e =
     (case e of
        None \<Rightarrow> JUndefined
      | Some r \<Rightarrow>
          (case event r of
             None \<Rightarrow> JUndefined
           | Some p \<Rightarrow> (case p ''type'' of None \<Rightarrow> JUndefined | Some v \<Rightarrow> v)))"

text \<open>\<^verbatim>\<open>prevEvents[prevEvents.length - 1]\<close>: undefined on the empty list.\<close>

definition lastEvent :: "RealtimeEvent list \<Rightarrow> RealtimeEvent option" where
  "lastEvent prevEvents = (if prevEvents = [] then None else Some (last prevEvents))"

text \<open>\<^verbatim>\<open>lastEvent.count || 1\<close>: an absent count and the count 0 are falsy.\<close>

definition count_or_1 :: "int option \<Rightarrow> int" where
  "count_or_1 c = (case c of None \<Rightarrow> 1 | Some n \<Rightarrow> if n = 0 then 1 else n)"

text \<open>The state updater passed to \<^verbatim>\<open>setRealtimeEvents\<close> for one incoming event.\<close>

definition setRealtimeEvents_updater ::
  "RealtimeEvent \<Rightarrow> RealtimeEvent list \<Rightarrow> RealtimeEvent list" where
  "setRealtimeEvents_updater realtimeEvent prevEvents =
     (if truthy (event_type (lastEvent prevEvents)) \<and>
         truthy (event_type (Some realtimeEvent)) \<and>
         event_type (lastEvent prevEvents) = event_type (Some realtimeEvent)
      then butlast prevEvents @
             [(last prevEvents)\<lparr>count := Some (count_or_1 (count (last prevEvents)) + 1)\<rparr>]
      else prevEvents @ [realtimeEvent\<lparr>count := Some 1\<rparr>])"

text \<open>
  The listener of \<^verbatim>\<open>realtime.event\<close>. The argument is \<open>None\<close> when the listener is
  called with null or undefined. An event without its \<^verbatim>\<open>event\<close> field is reported with
  \<^verbatim>\<open>console.warn\<close> and the state is not touched: the result is the list and the number
  of warnings written.
\<close>

definition on_realtime_event ::
  "RealtimeEvent option \<Rightarrow> RealtimeEvent list \<Rightarrow> RealtimeEvent list \<times> nat" where
  "on_realtime_event realtimeEvent prevEvents =
     (case realtimeEvent of
        None \<Rightarrow> (prevEvents, 1)
      | Some r \<Rightarrow>
          (if event r = None then (prevEvents, 1)
           else (setRealtimeEvents_updater r prevEvents, 0)))"

text \<open>The log after a sequence of deliveries, from the empty log the page starts with.\<close>

definition deliver :: "RealtimeEvent option list \<Rightarrow> RealtimeEvent list" where
  "deliver evs = foldl (\<lambda>prevEvents ev. fst (on_realtime_event ev prevEvents)) [] evs"

text \<open>Two neighbours of the log with \<^verbatim>\<open>===\<close>-equal \<^verbatim>\<open>event.type\<close>.\<close>

fun adjacent_equal_type :: "RealtimeEvent list \<Rightarrow> bool" where
  "adjacent_equal_type (a # b # rest) =
     (event_type (Some a) = event_type (Some b) \<or> adjacent_equal_type (b # rest))"
| "adjacent_equal_type _ = False"

text \<open>The same, for types that are truthy (what the reducer's guard asks for).\<close>

fun adjacent_equal_truthy_type :: "RealtimeEvent list \<Rightarrow> bool" where
  "adjacent_equal_truthy_type (a # b # rest) =
     ((truthy (event_type (Some a)) \<and> event_type (Some a) = event_type (Some b))
      \<or> adjacent_equal_truthy_type (b # rest))"
| "adjacent_equal_truthy_type _ = False"

text \<open>Every entry of the log carries a count of at least one.\<close>

definition counted :: "RealtimeEvent list \<Rightarrow> bool" where
  "counted evs = list_all (\<lambda>e. case count e of None \<Rightarrow> False | Some n \<Rightarrow> 1 \<le> n) evs"

text \<open>Example events: one without a \<^verbatim>\<open>type\<close>, two with one.\<close>

definition untyped_event :: RealtimeEvent where
  "untyped_event = \<lparr>time = ''t0'', source = Server, count = None, event = Some Map.empty\<rparr>"

definition created_event :: RealtimeEvent where
  "created_event =
     \<lparr>time = ''t1'', source = Server, count = None,
      event = Some [''type'' \<mapsto> JStr ''session.created'']\<rparr>"

definition delta_event :: RealtimeEvent where
  "delta_event =
     \<lparr>time = ''t2'', source = Server, count = None,
      event = Some [''type'' \<mapsto> JStr ''response.audio.delta'']\<rparr>"

definition broken_event :: RealtimeEvent where
  "broken_event = \<lparr>time = ''t3'', source = Client, count = None, event = None\<rparr>"

subsection \<open>Numbers\<close>

text \<open>
  The numbers of the audio levels are modelled as reals (rounding is not modelled),
  together with NaN, which the page can produce by dividing zero by zero and which
  \<^verbatim>\<open>Math.min\<close>, \<^verbatim>\<open>Math.max\<close> and the arithmetic operators pass on.
\<close>

datatype number = Num real | NaN

fun Math_min :: "number \<Rightarrow> number \<Rightarrow> number" where
  "Math_min (Num a) (Num b) = Num (min a b)"
| "Math_min _ _ = NaN"

fun Math_max :: "number \<Rightarrow> number \<Rightarrow> number" where
  "Math_max (Num a) (Num b) = Num (max a b)"
| "Math_max _ _ = NaN"

fun number_plus :: "number \<Rightarrow> number \<Rightarrow> number" where
  "number_plus (Num a) (Num b) = Num (a + b)"
| "number_plus _ _ = NaN"

fun number_times :: "number \<Rightarrow> number \<Rightarrow> number" where
  "number_times (Num a) (Num b) = Num (a * b)"
| "number_times _ _ = NaN"

text \<open>
  \<^verbatim>\<open>sum / array.length\<close> for a finite sum: the length is a natural number, and the
  sum of the empty array is the initial 0 of \<^verbatim>\<open>reduce\<close>, so a zero divisor only
  meets a zero dividend, and \<^verbatim>\<open>0 / 0\<close> is NaN.
\<close>

definition divide_by_length :: "real \<Rightarrow> nat \<Rightarrow> number" where
  "divide_by_length acc n = (if n = 0 then NaN else Num (acc / real n))"

subsection \<open>Audio levels\<close>

text \<open>An entry of \<^verbatim>\<open>audioLevels\<close>; its field \<^verbatim>\<open>id\<close> is \<open>ident\<close> here.\<close>

record AudioLevel =
  level :: number
  ident :: int

definition initial_audioLevels :: "AudioLevel list" where
  "initial_audioLevels =
     [\<lparr>level = Num 20, ident = 1\<rparr>, \<lparr>level = Num 20, ident = 2\<rparr>,
      \<lparr>level = Num 20, ident = 3\<rparr>, \<lparr>level = Num 20, ident = 4\<rparr>,
      \<lparr>level = Num 20, ident = 5\<rparr>]"

text \<open>
  The updater of the recording branch. \<open>values\<close> is \<^verbatim>\<open>frequencies.values\<close>, and
  \<open>random index\<close> is the result of the call of \<^verbatim>\<open>Math.random()\<close> made for the
  entry at \<open>index\<close>.
\<close>

definition average_of :: "real list \<Rightarrow> number" where
  "average_of values =
     (let amplifiedValues = map (\<lambda>val. val * 2.5) values
      in divide_by_length (foldl (+) 0 amplifiedValues) (length amplifiedValues))"

definition recording_level :: "number \<Rightarrow> nat \<Rightarrow> real \<Rightarrow> number" where
  "recording_level average index r =
     (let randomFactor = Num (r * 20 - 10);
          baseLevel =
            Math_min (Num 100)
              (Math_max (Num 20)
                 (number_plus (number_times average (Num 150)) (Num (real index * 10))));
          newLevel = number_plus baseLevel randomFactor
      in Math_min (Num 100) (Math_max (Num 20) newLevel))"

definition levels_while_recording ::
  "real list \<Rightarrow> (nat \<Rightarrow> real) \<Rightarrow> AudioLevel list \<Rightarrow> AudioLevel list" where
  "levels_while_recording values random prev =
     map (\<lambda>(index, l). \<lparr>level = recording_level (average_of values) index (random index),
                         ident = ident l\<rparr>)
       (zip [0..<length prev] prev)"

text \<open>The updater of the other branch: \<^verbatim>\<open>20 + Math.random() * 5\<close>.\<close>

definition levels_while_idle :: "(nat \<Rightarrow> real) \<Rightarrow> AudioLevel list \<Rightarrow> AudioLevel list" where
  "levels_while_idle random prev =
     map (\<lambda>(index, l). \<lparr>level = Num (20 + random index * 5), ident = ident l\<rparr>)
       (zip [0..<length prev] prev)"

text \<open>The updater of \<^verbatim>\<open>disconnectConversation\<close>: \<^verbatim>\<open>{ ...level, level: 20 }\<close>.\<close>

definition levels_reset :: "AudioLevel list \<Rightarrow> AudioLevel list" where
  "levels_reset prev = map (\<lambda>l. l\<lparr>level := Num 20\<rparr>) prev"

fun in_range :: "number \<Rightarrow> bool" where
  "in_range (Num x) = (20 \<le> x \<and> x \<le> 100)"
| "in_range NaN = False"

definition levels_in_range :: "AudioLevel list \<Rightarrow> bool" where
  "levels_in_range ls = list_all (\<lambda>l. in_range (level l)) ls"

subsection \<open>The page's state, its environment and its effects\<close>

text \<open>
  \<^verbatim>\<open>turn_detection\<close> of a session update: \<open>None\<close> is \<^verbatim>\<open>null\<close>, and
  \<open>server_vad\<close> is \<^verbatim>\<open>{ type: 'server_vad' }\<close>.
\<close>

datatype turn_detection = server_vad

text \<open>
  The two callbacks the page hands to \<^verbatim>\<open>wavRecorder.record\<close>: the one of
  \<^verbatim>\<open>connectConversation\<close> and \<^verbatim>\<open>changeTurnEndType\<close> asks
  \<^verbatim>\<open>client.isConnected()\<close> before it appends, the one of \<^verbatim>\<open>startRecording\<close> does not.
\<close>

datatype record_callback = append_if_connected | append_always

datatype status = Ended | Paused | Recording

datatype item = Item string

text \<open>Calls that leave the page. A text is the list of its UTF-16 code units.\<close>

datatype call =
    GetUserMedia
  | AudioContext_close nat
  | WavRecorder_begin
  | WavRecorder_record record_callback
  | WavRecorder_pause
  | WavRecorder_end
  | WavStreamPlayer_connect
  | WavStreamPlayer_interrupt
  | Client_getItems
  | Client_connect
  | Client_disconnect
  | Client_updateSession "turn_detection option"
  | Client_sendUserMessageContent "nat list"
  | Client_appendInputAudio "int list"
  | Client_cancelResponse
  | Client_createResponse

datatype error = Error call

text \<open>What the page does, in the order in which it does it.\<close>

datatype effect =
    Call call
  | RequestAnimationFrame nat
  | CancelAnimationFrame nat
  | SetTimeout nat
  | Console_log string
  | Console_error string "error option"
  | SetStartTime string
  | SetIsConnected bool
  | SetIsRecording bool
  | SetIsRecordingActive bool
  | SetCanPushToTalk bool
  | SetRealtimeEvents "RealtimeEvent list"
  | SetItems "item list"
  | SetMemoryKv_empty
  | SetAudioLevels
  | SetAudioContext_null
  | SetAnalyser_null

record world =
  isConnected :: bool
  isRecording :: bool
  isRecordingActive :: bool
  canPushToTalk :: bool
  items :: "item list"
  realtimeEvents :: "RealtimeEvent list"
  memoryKv :: kv
  audioLevels :: "AudioLevel list"
  audioContext :: "nat option"
  analyser :: "nat option"
  animationFrameRef :: "nat option"
  startTimeRef :: string
  trace :: "effect list"

text \<open>
  What the environment answers during one run of a function of the page: which calls
  throw (or return a promise that rejects), whether the three refs hold their objects,
  what \<^verbatim>\<open>client.isConnected()\<close>, \<^verbatim>\<open>wavRecorder.getStatus()\<close>,
  \<^verbatim>\<open>wavRecorder.recording\<close>, \<^verbatim>\<open>wavRecorder.getFrequencies('voice')\<close> (\<open>None\<close>
  when the result or its \<^verbatim>\<open>values\<close> is missing), \<^verbatim>\<open>client.conversation.getItems()\<close>,
  \<^verbatim>\<open>new Date().toISOString()\<close>, \<^verbatim>\<open>requestAnimationFrame\<close> and
  \<^verbatim>\<open>Math.random()\<close> give where the function asks, and whether the offset returned
  by \<^verbatim>\<open>wavStreamPlayer.interrupt()\<close> names a track.
\<close>

record env =
  throws :: "call \<Rightarrow> bool"
  has_client :: bool
  has_wavRecorder :: bool
  has_wavStreamPlayer :: bool
  client_isConnected :: bool
  recorder_status :: status
  recorder_recording :: bool
  recorder_frequencies :: "real list option"
  conversation_items :: "item list"
  now :: string
  next_frame :: nat
  random :: "nat \<Rightarrow> real"
  interrupt_trackId :: bool

text \<open>
  A statement ends normally, returns from the function, or throws; the state reached so
  far is kept in each case.
\<close>

datatype outcome = Normal world | Returned world | Thrown error world

fun world_of :: "outcome \<Rightarrow> world" where
  "world_of (Normal w) = w"
| "world_of (Returned w) = w"
| "world_of (Thrown e w) = w"

definition emit :: "effect \<Rightarrow> world \<Rightarrow> world" where
  "emit e w = w\<lparr>trace := trace w @ [e]\<rparr>"

text \<open>A sequence of statements.\<close>

fun block :: "(world \<Rightarrow> outcome) list \<Rightarrow> world \<Rightarrow> outcome" where
  "block [] w = Normal w"
| "block (s # ss) w = (case s w of Normal w' \<Rightarrow> block ss w' | other \<Rightarrow> other)"

definition cond :: "bool \<Rightarrow> (world \<Rightarrow> outcome) \<Rightarrow> world \<Rightarrow> outcome" where
  "cond b s w = (if b then s w else Normal w)"

definition try_catch ::
  "(world \<Rightarrow> outcome) \<Rightarrow> (error \<Rightarrow> world \<Rightarrow> outcome) \<Rightarrow> world \<Rightarrow> outcome" where
  "try_catch body handler w =
     (case body w of Thrown e w' \<Rightarrow> handler e w' | other \<Rightarrow> other)"

text \<open>The body of a function: a \<^verbatim>\<open>return\<close> ends the call normally.\<close>

definition function_body :: "(world \<Rightarrow> outcome) \<Rightarrow> world \<Rightarrow> outcome" where
  "function_body body w = (case body w of Returned w' \<Rightarrow> Normal w' | other \<Rightarrow> other)"

definition return_now :: "world \<Rightarrow> outcome" where
  "return_now w = Returned w"

text \<open>A call that leaves the page is recorded, and throws when the environment says so.\<close>

definition call :: "env \<Rightarrow> call \<Rightarrow> world \<Rightarrow> outcome" where
  "call env c w =
     (if throws env c then Thrown (Error c) (emit (Call c) w) else Normal (emit (Call c) w))"

definition console_log :: "string \<Rightarrow> world \<Rightarrow> outcome" where
  "console_log msg w = Normal (emit (Console_log msg) w)"

definition console_error :: "string \<Rightarrow> error option \<Rightarrow> world \<Rightarrow> outcome" where
  "console_error msg e w = Normal (emit (Console_error msg e) w)"

definition setTimeout :: "nat \<Rightarrow> world \<Rightarrow> outcome" where
  "setTimeout ms w = Normal (emit (SetTimeout ms) w)"

definition requestAnimationFrame :: "env \<Rightarrow> world \<Rightarrow> outcome" where
  "requestAnimationFrame env w =
     Normal (emit (RequestAnimationFrame (next_frame env))
               (w\<lparr>animationFrameRef := Some (next_frame env)\<rparr>))"

definition cancelAnimationFrame :: "nat \<Rightarrow> world \<Rightarrow> outcome" where
  "cancelAnimationFrame f w = Normal (emit (CancelAnimationFrame f) w)"

definition setStartTime :: "string \<Rightarrow> world \<Rightarrow> outcome" where
  "setStartTime t w = Normal (emit (SetStartTime t) (w\<lparr>startTimeRef := t\<rparr>))"

definition setIsConnected :: "bool \<Rightarrow> world \<Rightarrow> outcome" where
  "setIsConnected b w = Normal (emit (SetIsConnected b) (w\<lparr>isConnected := b\<rparr>))"

definition setIsRecording :: "bool \<Rightarrow> world \<Rightarrow> outcome" where
  "setIsRecording b w = Normal (emit (SetIsRecording b) (w\<lparr>isRecording := b\<rparr>))"

definition setIsRecordingActive :: "bool \<Rightarrow> world \<Rightarrow> outcome" where
  "setIsRecordingActive b w =
     Normal (emit (SetIsRecordingActive b) (w\<lparr>isRecordingActive := b\<rparr>))"

definition setCanPushToTalk :: "bool \<Rightarrow> world \<Rightarrow> outcome" where
  "setCanPushToTalk b w = Normal (emit (SetCanPushToTalk b) (w\<lparr>canPushToTalk := b\<rparr>))"

definition setRealtimeEvents :: "RealtimeEvent list \<Rightarrow> world \<Rightarrow> outcome" where
  "setRealtimeEvents evs w = Normal (emit (SetRealtimeEvents evs) (w\<lparr>realtimeEvents := evs\<rparr>))"

definition setItems :: "item list \<Rightarrow> world \<Rightarrow> outcome" where
  "setItems its w = Normal (emit (SetItems its) (w\<lparr>items := its\<rparr>))"

definition setMemoryKv_empty :: "world \<Rightarrow> outcome" where
  "setMemoryKv_empty w = Normal (emit SetMemoryKv_empty (w\<lparr>memoryKv := Map.empty\<rparr>))"

definition setAudioLevels :: "(AudioLevel list \<Rightarrow> AudioLevel list) \<Rightarrow> world \<Rightarrow> outcome" where
  "setAudioLevels updater w =
     Normal (emit SetAudioLevels (w\<lparr>audioLevels := updater (audioLevels w)\<rparr>))"

definition setAudioContext_null :: "world \<Rightarrow> outcome" where
  "setAudioContext_null w = Normal (emit SetAudioContext_null (w\<lparr>audioContext := None\<rparr>))"

definition setAnalyser_null :: "world \<Rightarrow> outcome" where
  "setAnalyser_null w = Normal (emit SetAnalyser_null (w\<lparr>analyser := None\<rparr>))"

text \<open>The state of the page when it is mounted.\<close>

definition initial_world :: world where
  "initial_world =
     \<lparr>isConnected = False, isRecording = False, isRecordingActive = False,
      canPushToTalk = False, items = [], realtimeEvents = [], memoryKv = Map.empty,
      audioLevels = initial_audioLevels, audioContext = None, analyser = None,
      animationFrameRef = None, startTimeRef = ''start'', trace = []\<rparr>"

text \<open>An environment in which every object is there and no call throws.\<close>

definition quiet_env :: env where
  "quiet_env =
     \<lparr>throws = (\<lambda>c. False), has_client = True, has_wavRecorder = True,
      has_wavStreamPlayer = True, client_isConnected = True, recorder_status = Ended,
      recorder_recording = False, recorder_frequencies = Some [0.2, 0.4],
      conversation_items = [], now = ''now'', next_frame = 7, random = (\<lambda>i. 1 / 2),
      interrupt_trackId = False\<rparr>"

subsection \<open>The functions of the page\<close>

text \<open>The text of the first user message, \<^verbatim>\<open>U+041F U+0440 U+0438 U+0432 U+0456 U+0442 !\<close>.\<close>

definition greeting :: "nat list" where
  "greeting = [0x41F, 0x440, 0x438, 0x432, 0x456, 0x442, 0x21]"

text \<open>
  What a callback handed to the recorder does with one chunk of samples
  (\<^verbatim>\<open>data.mono\<close>), given what \<^verbatim>\<open>client.isConnected()\<close> answers at that moment.
\<close>

fun record_callback_run :: "record_callback \<Rightarrow> bool \<Rightarrow> int list \<Rightarrow> call list" where
  "record_callback_run append_if_connected isConnected_now samples =
     (if isConnected_now then [Client_appendInputAudio samples] else [])"
| "record_callback_run append_always isConnected_now samples = [Client_appendInputAudio samples]"

text \<open>The parameter \<^verbatim>\<open>value\<close> of \<^verbatim>\<open>changeTurnEndType\<close> is \<open>val\<close> here.\<close>

definition changeTurnEndType :: "string \<Rightarrow> env \<Rightarrow> world \<Rightarrow> outcome" where
  "changeTurnEndType val env =
     function_body
       (try_catch
          (block
             [cond (\<not> has_client env \<or> \<not> has_wavRecorder env) return_now,
              cond (recorder_status env = Recording)
                (block [call env WavRecorder_pause, setIsRecording False]),
              cond (client_isConnected env)
                (block
                   [call env
                      (Client_updateSession (if val = ''none'' then None else Some server_vad)),
                    cond (val = ''server_vad'')
                      (block
                         [setTimeout 100,
                          call env (WavRecorder_record append_if_connected)])]),
              setCanPushToTalk (val = ''none'')])
          (\<lambda>error. console_error ''Error changing turn end type:'' (Some error)))"

definition updateAudioLevels :: "env \<Rightarrow> world \<Rightarrow> outcome" where
  "updateAudioLevels env =
     function_body
       (block
          [(\<lambda>w. if has_wavRecorder env \<and> recorder_recording env
                 then (case recorder_frequencies env of
                         Some values \<Rightarrow>
                           setAudioLevels (levels_while_recording values (random env)) w
                       | None \<Rightarrow> Normal w)
                 else setAudioLevels (levels_while_idle (random env)) w),
           requestAnimationFrame env])"

definition connectConversation :: "env \<Rightarrow> world \<Rightarrow> outcome" where
  "connectConversation env =
     function_body
       (try_catch
          (block
             [call env GetUserMedia,
              setIsRecordingActive True,
              requestAnimationFrame env,
              console_log ''Starting connection...'',
              try_catch
                (block
                   [cond (\<not> has_client env \<or> \<not> has_wavRecorder env \<or> \<not> has_wavStreamPlayer env)
                      (block
                         [console_error ''Required components are not initialized'' None,
                          return_now]),
                    console_log ''Components checked, proceeding with connection...'',
                    setStartTime (now env),
                    setIsConnected True,
                    setRealtimeEvents [],
                    call env Client_getItems,
                    setItems (conversation_items env),
                    call env WavRecorder_begin,
                    call env WavStreamPlayer_connect,
                    call env Client_connect,
                    cond (client_isConnected env)
                      (block
                         [console_log ''Successfully connected!'',
                          call env (Client_updateSession (Some server_vad)),
                          call env (Client_sendUserMessageContent greeting),
                          call env (WavRecorder_record append_if_connected)])])
                (\<lambda>error.
                   block
                     [console_error ''Error connecting conversation:'' (Some error),
                      setIsConnected False,
                      setIsRecordingActive False])])
          (\<lambda>error.
             block
               [console_error ''Error connecting:'' (Some error),
                setIsConnected False,
                setIsRecordingActive False]))"

text \<open>\<^verbatim>\<open>if (animationFrameRef.current)\<close>: undefined and 0 are falsy.\<close>

definition disconnectConversation :: "env \<Rightarrow> world \<Rightarrow> outcome" where
  "disconnectConversation env =
     function_body
       (block
          [(\<lambda>w. case animationFrameRef w of
                   Some f \<Rightarrow> cond (f \<noteq> 0) (cancelAnimationFrame f) w
                 | None \<Rightarrow> Normal w),
           (\<lambda>w. case audioContext w of
                   Some ctx \<Rightarrow> call env (AudioContext_close ctx) w
                 | None \<Rightarrow> Normal w),
           setAudioContext_null,
           setAnalyser_null,
           setIsRecordingActive False,
           setIsConnected False,
           setAudioLevels levels_reset,
           setIsRecording False,
           setRealtimeEvents [],
           setItems [],
           setMemoryKv_empty,
           call env Client_disconnect,
           call env WavRecorder_end,
           call env WavStreamPlayer_interrupt])"

definition startRecording :: "env \<Rightarrow> world \<Rightarrow> outcome" where
  "startRecording env =
     function_body
       (cond (recorder_status env \<noteq> Recording)
          (block
             [setIsRecording True,
              call env WavStreamPlayer_interrupt,
              cond (interrupt_trackId env) (call env Client_cancelResponse),
              call env (WavRecorder_record append_always)]))"

definition stopRecording :: "env \<Rightarrow> world \<Rightarrow> outcome" where
  "stopRecording env =
     function_body
       (block
          [setIsRecording False,
           cond (recorder_status env = Recording) (call env WavRecorder_pause),
           call env Client_createResponse])"

text \<open>The effects a run has added to the trace.\<close>

definition added :: "world \<Rightarrow> outcome \<Rightarrow> effect list" where
  "added w r = drop (length (trace w)) (trace (world_of r))"

definition is_Normal :: "outcome \<Rightarrow> bool" where
  "is_Normal r = (case r of Normal w \<Rightarrow> True | other \<Rightarrow> False)"

text \<open>
  Successive frames of the level animation: \<^verbatim>\<open>updateAudioLevels\<close> runs once per
  frame, each time in the environment of that frame.
\<close>

definition frames :: "env list \<Rightarrow> world \<Rightarrow> world" where
  "frames envs w = foldl (\<lambda>w' env. world_of (updateAudioLevels env w')) w envs"

subsection \<open>The render loop of the two canvases\<close>

text \<open>
  The loop lives in an effect of its own, with the variables \<^verbatim>\<open>isLoaded\<close>,
  \<^verbatim>\<open>clientCtx\<close> and \<^verbatim>\<open>serverCtx\<close> of its closure (a context is kept once
  it was obtained). The geometry of a canvas is not modelled: \<^verbatim>\<open>clearRect(0, 0,
  canvas.width, canvas.height)\<close> clears the canvas, and the assignments made when its
  width or height is zero are one resize.
\<close>

datatype target = client_canvas | server_canvas

datatype draw =
    ResizeCanvas target
  | GetContext target
  | ClearRect target
  | Recorder_getFrequencies
  | Player_getFrequencies
  | DrawBars target "real list" string nat nat nat
  | RequestAnimationFrame_render

record render_state =
  isLoaded :: bool
  clientCtx :: bool
  serverCtx :: bool
  drawn :: "draw list"

text \<open>
  What one frame finds: whether the refs held a canvas when the effect ran, whether each
  canvas has a width and a height, whether \<^verbatim>\<open>getContext('2d')\<close> gives a context,
  \<^verbatim>\<open>wavRecorder.recording\<close>, \<^verbatim>\<open>wavStreamPlayer.analyser\<close>, and the values of
  the two frequency analyses.
\<close>

record frame =
  clientCanvas :: bool
  client_sized :: bool
  client_getContext :: bool
  serverCanvas :: bool
  server_sized :: bool
  server_getContext :: bool
  wavRecorder_recording :: bool
  wavRecorder_values :: "real list"
  wavStreamPlayer_analyser :: bool
  wavStreamPlayer_values :: "real list"

definition draws :: "draw list \<Rightarrow> render_state \<Rightarrow> render_state" where
  "draws ds s = s\<lparr>drawn := drawn s @ ds\<rparr>"

definition render_client :: "frame \<Rightarrow> render_state \<Rightarrow> render_state" where
  "render_client fr s =
     (if clientCanvas fr then
        (let s1 = (if \<not> client_sized fr then draws [ResizeCanvas client_canvas] s else s);
             s2 = (if clientCtx s1 then s1
                   else (draws [GetContext client_canvas] s1)
                          \<lparr>clientCtx := client_getContext fr\<rparr>)
         in if clientCtx s2 then
              (let s3 = draws [ClearRect client_canvas] s2;
                   (values, s4) =
                      (if wavRecorder_recording fr
                       then (wavRecorder_values fr, draws [Recorder_getFrequencies] s3)
                       else ([0], s3))
               in draws [DrawBars client_canvas values ''#4F46E5'' 20 2 16] s4)
            else s2)
      else s)"

definition render_server :: "frame \<Rightarrow> render_state \<Rightarrow> render_state" where
  "render_server fr s =
     (if serverCanvas fr then
        (let s1 = (if \<not> server_sized fr then draws [ResizeCanvas server_canvas] s else s);
             s2 = (if serverCtx s1 then s1
                   else (draws [GetContext server_canvas] s1)
                          \<lparr>serverCtx := server_getContext fr\<rparr>)
         in if serverCtx s2 then
              (let s3 = draws [ClearRect server_canvas] s2;
                   (values, s4) =
                      (if wavStreamPlayer_analyser fr
                       then (wavStreamPlayer_values fr, draws [Player_getFrequencies] s3)
                       else ([0], s3))
               in draws [DrawBars server_canvas values ''#009900'' 10 0 8] s4)
            else s2)
      else s)"

definition render :: "frame \<Rightarrow> render_state \<Rightarrow> render_state" where
  "render fr s =
     (if isLoaded s
      then draws [RequestAnimationFrame_render] (render_server fr (render_client fr s))
      else s)"

text \<open>The state of the loop when the effect has run, and a frame with both canvases.\<close>

definition loop_start :: render_state where
  "loop_start = \<lparr>isLoaded = True, clientCtx = False, serverCtx = False, drawn = []\<rparr>"

definition speaking_frame :: frame where
  "speaking_frame =
     \<lparr>clientCanvas = True, client_sized = True, client_getContext = True,
      serverCanvas = True, server_sized = True, server_getContext = True,
      wavRecorder_recording = True, wavRecorder_values = [0.5, 0.25],
      wavStreamPlayer_analyser = False, wavStreamPlayer_values = [0.75]\<rparr>"

subsection \<open>The API key in local storage\<close>

text \<open>
  \<^verbatim>\<open>localStorage\<close> is a map from strings to strings; \<^verbatim>\<open>getItem\<close> gives null for
  a missing entry. \<^verbatim>\<open>prompt\<close> gives the text entered, or null when the dialog is
  dismissed: the answer is an input of the model, and the dialog is recorded when it is
  shown. The storage calls are taken not to throw.
\<close>

datatype browser_effect =
    Prompt string
  | LocalStorage_getItem string
  | LocalStorage_setItem string string
  | LocalStorage_clear
  | Location_reload

record browser =
  localStorage :: "string \<rightharpoonup> string"
  effects :: "browser_effect list"

definition did :: "browser_effect \<Rightarrow> browser \<Rightarrow> browser" where
  "did e b = b\<lparr>effects := effects b @ [e]\<rparr>"

definition localStorage_setItem :: "string \<Rightarrow> string \<Rightarrow> browser \<Rightarrow> browser" where
  "localStorage_setItem k v b =
     did (LocalStorage_setItem k v) (b\<lparr>localStorage := (localStorage b)(k \<mapsto> v)\<rparr>)"

definition localStorage_clear :: "browser \<Rightarrow> browser" where
  "localStorage_clear b = did LocalStorage_clear (b\<lparr>localStorage := Map.empty\<rparr>)"

text \<open>
  The key computed when the component function runs:
  \<^verbatim>\<open>LOCAL_RELAY_SERVER_URL ? '' : localStorage.getItem(..) || prompt(..) || ''\<close>,
  followed by the write of a key that is not empty. The empty string is falsy.
\<close>

definition ask_key :: "string option \<Rightarrow> browser \<Rightarrow> string \<times> browser" where
  "ask_key prompt_answer b =
     (let b' = did (Prompt ''OpenAI API Key'') b
      in case prompt_answer of Some entered \<Rightarrow> (entered, b') | None \<Rightarrow> ([], b'))"

definition apiKey :: "string \<Rightarrow> string option \<Rightarrow> browser \<Rightarrow> string \<times> browser" where
  "apiKey LOCAL_RELAY_SERVER_URL prompt_answer b =
     (let (k, b1) =
        (if LOCAL_RELAY_SERVER_URL \<noteq> [] then ([], b)
         else
           (let b' = did (LocalStorage_getItem ''tmp::voice_api_key'') b
            in case localStorage b ''tmp::voice_api_key'' of
                 Some stored \<Rightarrow> if stored \<noteq> [] then (stored, b') else ask_key prompt_answer b'
               | None \<Rightarrow> ask_key prompt_answer b'))
      in if k \<noteq> [] then (k, localStorage_setItem ''tmp::voice_api_key'' k b1) else (k, b1))"

definition resetAPIKey :: "string option \<Rightarrow> browser \<Rightarrow> browser" where
  "resetAPIKey prompt_answer b =
     (let b1 = did (Prompt ''OpenAI API Key'') b
      in case prompt_answer of
           None \<Rightarrow> b1
         | Some k \<Rightarrow>
             did Location_reload
               (localStorage_setItem ''tmp::voice_api_key'' k (localStorage_clear b1)))"

subsection \<open>Example states and environments\<close>

text \<open>A page in the middle of a conversation, with a pending frame and an audio context.\<close>

definition live_world :: world where
  "live_world =
     \<lparr>isConnected = True, isRecording = True, isRecordingActive = True,
      canPushToTalk = False, items = [Item ''item_1''], realtimeEvents = [created_event],
      memoryKv = [''name'' \<mapsto> ''Olena''],
      audioLevels = [\<lparr>level = Num 64, ident = 1\<rparr>, \<lparr>level = Num 23, ident = 2\<rparr>],
      audioContext = Some 1, analyser = Some 1, animationFrameRef = Some 7,
      startTimeRef = ''start'', trace = []\<rparr>"

text \<open>The socket cannot be opened: \<^verbatim>\<open>client.connect()\<close> rejects.\<close>

definition refused_env :: env where
  "refused_env = quiet_env\<lparr>throws := (\<lambda>c. c = Client_connect)\<rparr>"

text \<open>The recorder is recording when the mode is changed.\<close>

definition recording_env :: env where
  "recording_env = quiet_env\<lparr>recorder_status := Recording, recorder_recording := True\<rparr>"

text \<open>The session update for the manual mode rejects.\<close>

definition rejected_update_env :: env where
  "rejected_update_env = quiet_env\<lparr>throws := (\<lambda>c. c = Client_updateSession None)\<rparr>"

text \<open>The recorder is recording and the client is not connected.\<close>

definition offline_env :: env where
  "offline_env = recording_env\<lparr>client_isConnected := False\<rparr>"

text \<open>Both canvases are mounted, and neither gives a 2D context.\<close>

definition no_context_frame :: frame where
  "no_context_frame = speaking_frame\<lparr>client_getContext := False, server_getContext := False\<rparr>"

text \<open>No canvas is mounted: both refs are null when the effect runs.\<close>

definition unmounted_frame :: frame where
  "unmounted_frame = speaking_frame\<lparr>clientCanvas := False, serverCanvas := False\<rparr>"

section \<open>Properties\<close>

subsection \<open>Unfolding the statements\<close>

lemmas statement_defs =
  call_def cond_def try_catch_def function_body_def return_now_def console_log_def
  console_error_def setTimeout_def requestAnimationFrame_def cancelAnimationFrame_def
  setStartTime_def setIsConnected_def setIsRecording_def setIsRecordingActive_def
  setCanPushToTalk_def setRealtimeEvents_def setItems_def setMemoryKv_empty_def
  setAudioLevels_def setAudioContext_null_def setAnalyser_null_def emit_def

lemmas example_defs =
  quiet_env_def initial_world_def initial_audioLevels_def live_world_def refused_env_def
  recording_env_def rejected_update_env_def offline_env_def

lemmas event_defs =
  deliver_def on_realtime_event_def setRealtimeEvents_updater_def lastEvent_def
  event_type_def count_or_1_def untyped_event_def created_event_def delta_event_def
  broken_event_def

lemmas frame_defs = speaking_frame_def no_context_frame_def unmounted_frame_def loop_start_def

subsection \<open>Disconnecting\<close>

lemma levels_reset_level: "map level (levels_reset ls) = replicate (length ls) (Num 20)"
  by (induction ls) (simp_all add: levels_reset_def)

lemma levels_reset_ident: "map ident (levels_reset ls) = map ident ls"
  by (simp add: levels_reset_def)

text \<open>
  Claim C1. When no call throws, \<^verbatim>\<open>disconnectConversation\<close> cancels the frame held
  in \<^verbatim>\<open>animationFrameRef\<close> (when there is one), awaits \<^verbatim>\<open>close()\<close> of the
  current audio context (when there is one), then resets the state
  (\<^verbatim>\<open>isConnected\<close>, \<^verbatim>\<open>isRecording\<close> and \<^verbatim>\<open>isRecordingActive\<close> false; items,
  events and memory empty; every audio level 20, ids and order kept), and only then
  disconnects the client, ends the recorder and interrupts the stream player.
\<close>

theorem disconnectConversation_resets:
  assumes "\<forall>c. \<not> throws env c"
  shows "\<exists>w'. disconnectConversation env w = Normal w' \<and>
     trace w' = trace w @
       (case animationFrameRef w of
          Some f \<Rightarrow> if f \<noteq> 0 then [CancelAnimationFrame f] else []
        | None \<Rightarrow> []) @
       (case audioContext w of Some ctx \<Rightarrow> [Call (AudioContext_close ctx)] | None \<Rightarrow> []) @
       [SetAudioContext_null, SetAnalyser_null, SetIsRecordingActive False,
        SetIsConnected False, SetAudioLevels, SetIsRecording False, SetRealtimeEvents [],
        SetItems [], SetMemoryKv_empty,
        Call Client_disconnect, Call WavRecorder_end, Call WavStreamPlayer_interrupt] \<and>
     \<not> isConnected w' \<and> \<not> isRecording w' \<and> \<not> isRecordingActive w' \<and>
     items w' = [] \<and> realtimeEvents w' = [] \<and> memoryKv w' = Map.empty \<and>
     map level (audioLevels w') = replicate (length (audioLevels w)) (Num 20) \<and>
     map ident (audioLevels w') = map ident (audioLevels w) \<and>
     audioContext w' = None \<and> analyser w' = None"
  using assms
  by (simp add: disconnectConversation_def statement_defs levels_reset_level levels_reset_ident
      split: option.split)

text \<open>The page of \<open>live_world\<close>, with frame 7 pending and audio context 1, is disconnected.\<close>

theorem disconnectConversation_resets_witness:
  "(\<forall>c. \<not> throws quiet_env c) \<and>
   is_Normal (disconnectConversation quiet_env live_world) \<and>
   trace (world_of (disconnectConversation quiet_env live_world)) =
     [CancelAnimationFrame 7, Call (AudioContext_close 1), SetAudioContext_null,
      SetAnalyser_null, SetIsRecordingActive False, SetIsConnected False, SetAudioLevels,
      SetIsRecording False, SetRealtimeEvents [], SetItems [], SetMemoryKv_empty,
      Call Client_disconnect, Call WavRecorder_end, Call WavStreamPlayer_interrupt] \<and>
   audioLevels (world_of (disconnectConversation quiet_env live_world)) =
     [\<lparr>level = Num 20, ident = 1\<rparr>, \<lparr>level = Num 20, ident = 2\<rparr>]"
  using disconnectConversation_resets[of quiet_env live_world]
  by (simp add: disconnectConversation_def statement_defs example_defs is_Normal_def
      levels_reset_def)

subsection \<open>Connecting\<close>

text \<open>
  Claim C2. When an awaited step of \<^verbatim>\<open>connectConversation\<close> that is reached throws
  (the microphone; with the three objects in place the recorder's begin, the player's
  connect, the client's connect; and on a connected client the session update or the
  start of the recording), the function still ends normally, an error that was thrown is
  written with \<^verbatim>\<open>console.error\<close>, and the last things done are
  \<^verbatim>\<open>setIsConnected(false)\<close> and \<^verbatim>\<open>setIsRecordingActive(false)\<close>.
\<close>

theorem connectConversation_error_reset:
  assumes "throws env GetUserMedia \<or>
           (has_client env \<and> has_wavRecorder env \<and> has_wavStreamPlayer env \<and>
            (throws env WavRecorder_begin \<or> throws env WavStreamPlayer_connect \<or>
             throws env Client_connect \<or>
             (client_isConnected env \<and>
              (throws env (Client_updateSession (Some server_vad)) \<or>
               throws env (WavRecorder_record append_if_connected)))))"
  shows "\<exists>w' msg e. connectConversation env w = Normal w' \<and>
           \<not> isConnected w' \<and> \<not> isRecordingActive w' \<and>
           throws env e \<and> Call e \<in> set (added w (Normal w')) \<and>
           drop (length (trace w') - 3) (trace w') =
             [Console_error msg (Some (Error e)), SetIsConnected False,
              SetIsRecordingActive False]"
proof (cases "throws env GetUserMedia")
  case True
  then show ?thesis
    by (simp add: connectConversation_def statement_defs added_def)
next
  case False
  with assms have present:
      "has_client env" "has_wavRecorder env" "has_wavStreamPlayer env"
    and inner: "throws env WavRecorder_begin \<or> throws env WavStreamPlayer_connect \<or>
       throws env Client_connect \<or>
       (client_isConnected env \<and>
        (throws env (Client_updateSession (Some server_vad)) \<or>
         throws env (WavRecorder_record append_if_connected)))"
    by blast+
  show ?thesis
  proof (cases "throws env Client_getItems \<or> throws env WavRecorder_begin \<or>
                throws env WavStreamPlayer_connect \<or> throws env Client_connect")
    case True
    with False present show ?thesis
      by (auto simp add: connectConversation_def statement_defs added_def)
  next
    case quiet: False
    with inner have connected: "client_isConnected env" by blast
    from quiet inner have "throws env (Client_updateSession (Some server_vad)) \<or>
        throws env (WavRecorder_record append_if_connected)" by blast
    with False present quiet connected show ?thesis
      by (auto simp add: connectConversation_def statement_defs added_def)
  qed
qed

text \<open>The client's connect rejects on a freshly mounted page.\<close>

theorem connectConversation_error_reset_witness:
  "throws refused_env Client_connect \<and>
   is_Normal (connectConversation refused_env initial_world) \<and>
   \<not> isConnected (world_of (connectConversation refused_env initial_world)) \<and>
   \<not> isRecordingActive (world_of (connectConversation refused_env initial_world)) \<and>
   trace (world_of (connectConversation refused_env initial_world)) =
     [Call GetUserMedia, SetIsRecordingActive True, RequestAnimationFrame 7,
      Console_log ''Starting connection...'',
      Console_log ''Components checked, proceeding with connection...'',
      SetStartTime ''now'', SetIsConnected True, SetRealtimeEvents [],
      Call Client_getItems, SetItems [],
      Call WavRecorder_begin, Call WavStreamPlayer_connect, Call Client_connect,
      Console_error ''Error connecting conversation:'' (Some (Error Client_connect)),
      SetIsConnected False, SetIsRecordingActive False]"
  using connectConversation_error_reset[of refused_env initial_world]
  by (simp add: connectConversation_def statement_defs example_defs is_Normal_def)

text \<open>
  Claim C4. With the three objects in place and no call throwing,
  \<^verbatim>\<open>connectConversation\<close> does, after the microphone request and the start of the
  level animation, exactly this, in this order: it records the start time, sets
  \<^verbatim>\<open>isConnected\<close>, clears the events, loads the client's items, awaits the recorder's
  begin, the player's connect and the client's connect; and if (and only if) the client
  then reports connected, it updates the session to \<^verbatim>\<open>server_vad\<close>, sends the text
  of \<open>greeting\<close> and starts the recording whose callback appends to the client.
\<close>

theorem connectConversation_order:
  assumes "has_client env" and "has_wavRecorder env" and "has_wavStreamPlayer env"
    and "\<forall>c. \<not> throws env c"
  shows "\<exists>w'. connectConversation env w = Normal w' \<and>
     trace w' = trace w @
       [Call GetUserMedia, SetIsRecordingActive True, RequestAnimationFrame (next_frame env),
        Console_log ''Starting connection...'',
        Console_log ''Components checked, proceeding with connection...'',
        SetStartTime (now env), SetIsConnected True, SetRealtimeEvents [],
        Call Client_getItems, SetItems (conversation_items env),
        Call WavRecorder_begin, Call WavStreamPlayer_connect, Call Client_connect] @
       (if client_isConnected env
        then [Console_log ''Successfully connected!'',
              Call (Client_updateSession (Some server_vad)),
              Call (Client_sendUserMessageContent greeting),
              Call (WavRecorder_record append_if_connected)]
        else [])"
  using assms by (simp add: connectConversation_def statement_defs)

text \<open>A connection that succeeds on a freshly mounted page.\<close>

theorem connectConversation_order_witness:
  "has_client quiet_env \<and> has_wavRecorder quiet_env \<and> has_wavStreamPlayer quiet_env \<and>
   (\<forall>c. \<not> throws quiet_env c) \<and> client_isConnected quiet_env \<and>
   trace (world_of (connectConversation quiet_env initial_world)) =
     [Call GetUserMedia, SetIsRecordingActive True, RequestAnimationFrame 7,
      Console_log ''Starting connection...'',
      Console_log ''Components checked, proceeding with connection...'',
      SetStartTime ''now'', SetIsConnected True, SetRealtimeEvents [],
      Call Client_getItems, SetItems [],
      Call WavRecorder_begin, Call WavStreamPlayer_connect, Call Client_connect,
      Console_log ''Successfully connected!'',
      Call (Client_updateSession (Some server_vad)),
      Call (Client_sendUserMessageContent greeting),
      Call (WavRecorder_record append_if_connected)]"
  using connectConversation_order[of quiet_env initial_world]
  by (simp add: connectConversation_def statement_defs example_defs)

subsection \<open>Changing the turn-taking mode\<close>

text \<open>
  The claim as it stands says of \<^verbatim>\<open>changeTurnEndType('none')\<close>, without a condition,
  that it updates the session with \<^verbatim>\<open>turn_detection: null\<close>. The two mode buttons
  are rendered whether or not the page is connected, and on a client that is not
  connected the call pauses the recorder and sets \<^verbatim>\<open>canPushToTalk\<close> to true, and no
  session update is sent.
\<close>

theorem changeTurnEndType_none_offline:
  "has_client offline_env \<and> has_wavRecorder offline_env \<and>
   \<not> client_isConnected offline_env \<and>
   trace (world_of (changeTurnEndType ''none'' offline_env initial_world)) =
     [Call WavRecorder_pause, SetIsRecording False, SetCanPushToTalk True] \<and>
   Call (Client_updateSession None) \<notin>
     set (trace (world_of (changeTurnEndType ''none'' offline_env initial_world)))"
  by (simp add: changeTurnEndType_def statement_defs example_defs)

text \<open>
  Claim C3, amended. With no call throwing, \<^verbatim>\<open>changeTurnEndType('server_vad')\<close>
  pauses a recorder that is recording; on a connected client it then updates the
  session with \<^verbatim>\<open>turn_detection: { type: 'server_vad' }\<close>, waits, and starts the
  recording whose callback appends a chunk to the client when the client is connected
  and does nothing when it is not; and it sets \<^verbatim>\<open>canPushToTalk\<close> to false.
  \<^verbatim>\<open>changeTurnEndType('none')\<close> pauses a recorder that is recording, updates the
  session with \<^verbatim>\<open>turn_detection: null\<close> when the client is connected, and sets
  \<^verbatim>\<open>canPushToTalk\<close> to true. On a client that is not connected neither call sends a
  session update or starts a recording, and the flag is set all the same.
\<close>

theorem changeTurnEndType_modes:
  assumes "has_client env" and "has_wavRecorder env" and "\<forall>c. \<not> throws env c"
  shows "(\<exists>w'. changeTurnEndType ''server_vad'' env w = Normal w' \<and>
            trace w' = trace w @
              (if recorder_status env = Recording
               then [Call WavRecorder_pause, SetIsRecording False] else []) @
              (if client_isConnected env
               then [Call (Client_updateSession (Some server_vad)), SetTimeout 100,
                     Call (WavRecorder_record append_if_connected)]
               else []) @
              [SetCanPushToTalk False] \<and>
            \<not> canPushToTalk w') \<and>
         record_callback_run append_if_connected True samples =
           [Client_appendInputAudio samples] \<and>
         record_callback_run append_if_connected False samples = [] \<and>
         (\<exists>w'. changeTurnEndType ''none'' env w = Normal w' \<and>
            trace w' = trace w @
              (if recorder_status env = Recording
               then [Call WavRecorder_pause, SetIsRecording False] else []) @
              (if client_isConnected env then [Call (Client_updateSession None)] else []) @
              [SetCanPushToTalk True] \<and>
            canPushToTalk w')"
proof -
  have vad: "\<exists>w'. changeTurnEndType ''server_vad'' env w = Normal w' \<and>
            trace w' = trace w @
              (if recorder_status env = Recording
               then [Call WavRecorder_pause, SetIsRecording False] else []) @
              (if client_isConnected env
               then [Call (Client_updateSession (Some server_vad)), SetTimeout 100,
                     Call (WavRecorder_record append_if_connected)]
               else []) @
              [SetCanPushToTalk False] \<and>
            \<not> canPushToTalk w'"
    using assms by (simp add: changeTurnEndType_def statement_defs)
  have manual: "\<exists>w'. changeTurnEndType ''none'' env w = Normal w' \<and>
            trace w' = trace w @
              (if recorder_status env = Recording
               then [Call WavRecorder_pause, SetIsRecording False] else []) @
              (if client_isConnected env then [Call (Client_updateSession None)] else []) @
              [SetCanPushToTalk True] \<and>
            canPushToTalk w'"
    using assms by (simp add: changeTurnEndType_def statement_defs)
  from vad manual show ?thesis by simp
qed

text \<open>
  Both modes are chosen while the recorder is recording, on a connected client and on
  one that is not connected.
\<close>

theorem changeTurnEndType_modes_witness:
  "has_client recording_env \<and> has_wavRecorder recording_env \<and>
   client_isConnected recording_env \<and> (\<forall>c. \<not> throws recording_env c) \<and>
   trace (world_of (changeTurnEndType ''server_vad'' recording_env initial_world)) =
     [Call WavRecorder_pause, SetIsRecording False,
      Call (Client_updateSession (Some server_vad)), SetTimeout 100,
      Call (WavRecorder_record append_if_connected), SetCanPushToTalk False] \<and>
   \<not> canPushToTalk (world_of (changeTurnEndType ''server_vad'' recording_env initial_world)) \<and>
   trace (world_of (changeTurnEndType ''none'' recording_env initial_world)) =
     [Call WavRecorder_pause, SetIsRecording False,
      Call (Client_updateSession None), SetCanPushToTalk True] \<and>
   canPushToTalk (world_of (changeTurnEndType ''none'' recording_env initial_world)) \<and>
   has_client offline_env \<and> has_wavRecorder offline_env \<and>
   (\<forall>c. \<not> throws offline_env c) \<and>
   trace (world_of (changeTurnEndType ''server_vad'' offline_env initial_world)) =
     [Call WavRecorder_pause, SetIsRecording False, SetCanPushToTalk False] \<and>
   trace (world_of (changeTurnEndType ''none'' offline_env initial_world)) =
     [Call WavRecorder_pause, SetIsRecording False, SetCanPushToTalk True] \<and>
   canPushToTalk (world_of (changeTurnEndType ''none'' offline_env initial_world))"
  using changeTurnEndType_modes[of recording_env initial_world "[]"]
        changeTurnEndType_modes[of offline_env initial_world "[]"]
  by (simp add: changeTurnEndType_def statement_defs example_defs)

text \<open>
  Claim C5. \<^verbatim>\<open>changeTurnEndType\<close> always ends normally and does nothing twice. When
  an awaited call that is reached throws (the pause of a recorder that is recording, or
  on a connected client the session update or, for \<^verbatim>\<open>server_vad\<close>, the start of the
  recording), the last thing done is the \<^verbatim>\<open>console.error\<close> of an error that was
  thrown, \<^verbatim>\<open>setCanPushToTalk\<close> is not called, and \<^verbatim>\<open>canPushToTalk\<close> is as before.
\<close>

theorem changeTurnEndType_errors:
  "is_Normal (changeTurnEndType val env w) \<and>
   distinct (added w (changeTurnEndType val env w)) \<and>
   (has_client env \<and> has_wavRecorder env \<and>
    ((recorder_status env = Recording \<and> throws env WavRecorder_pause) \<or>
     (client_isConnected env \<and>
      (throws env (Client_updateSession (if val = ''none'' then None else Some server_vad)) \<or>
       (val = ''server_vad'' \<and> throws env (WavRecorder_record append_if_connected)))))
    \<longrightarrow> (\<exists>e. throws env e \<and>
           last (trace (world_of (changeTurnEndType val env w))) =
             Console_error ''Error changing turn end type:'' (Some (Error e))) \<and>
        canPushToTalk (world_of (changeTurnEndType val env w)) = canPushToTalk w \<and>
        (\<forall>b. SetCanPushToTalk b \<notin> set (added w (changeTurnEndType val env w))))"
proof (intro conjI impI)
  show "is_Normal (changeTurnEndType val env w)"
    by (simp add: changeTurnEndType_def statement_defs is_Normal_def)
  show "distinct (added w (changeTurnEndType val env w))"
    by (simp add: changeTurnEndType_def statement_defs added_def)
next
  assume failing: "has_client env \<and> has_wavRecorder env \<and>
    ((recorder_status env = Recording \<and> throws env WavRecorder_pause) \<or>
     (client_isConnected env \<and>
      (throws env (Client_updateSession (if val = ''none'' then None else Some server_vad)) \<or>
       (val = ''server_vad'' \<and> throws env (WavRecorder_record append_if_connected)))))"
  then show "\<exists>e. throws env e \<and>
           last (trace (world_of (changeTurnEndType val env w))) =
             Console_error ''Error changing turn end type:'' (Some (Error e))"
    by (auto simp add: changeTurnEndType_def statement_defs)
  from failing show "canPushToTalk (world_of (changeTurnEndType val env w)) = canPushToTalk w"
    by (auto simp add: changeTurnEndType_def statement_defs)
  from failing show "\<forall>b. SetCanPushToTalk b \<notin> set (added w (changeTurnEndType val env w))"
    by (auto simp add: changeTurnEndType_def statement_defs added_def)
qed

text \<open>The session update for the manual mode rejects: the page stays in its mode.\<close>

theorem changeTurnEndType_errors_witness:
  "has_client rejected_update_env \<and> has_wavRecorder rejected_update_env \<and>
   client_isConnected rejected_update_env \<and>
   throws rejected_update_env (Client_updateSession None) \<and>
   is_Normal (changeTurnEndType ''none'' rejected_update_env initial_world) \<and>
   trace (world_of (changeTurnEndType ''none'' rejected_update_env initial_world)) =
     [Call (Client_updateSession None),
      Console_error ''Error changing turn end type:'' (Some (Error (Client_updateSession None)))] \<and>
   canPushToTalk (world_of (changeTurnEndType ''none'' rejected_update_env initial_world)) =
     canPushToTalk initial_world"
  using changeTurnEndType_errors[of "''none''" rejected_update_env initial_world]
  by (simp add: changeTurnEndType_def statement_defs example_defs is_Normal_def)

subsection \<open>The API key\<close>

text \<open>
  Claim C6. Without a relay server, the key is the entry \<^verbatim>\<open>tmp::voice_api_key\<close> of
  local storage when that entry is there and not empty, and otherwise what the prompt
  gives (the empty string when it is dismissed); a key that is not empty is written to
  that entry, and nothing is written for the empty key. \<^verbatim>\<open>resetAPIKey\<close> with a key
  entered clears the storage, stores the key under that entry and then reloads; with the
  prompt dismissed it changes nothing. With a relay server the key is empty and the
  storage is not touched.
\<close>

theorem api_key_persisted:
  "fst (apiKey [] answer b) =
     (case localStorage b ''tmp::voice_api_key'' of
        Some stored \<Rightarrow>
          if stored \<noteq> [] then stored
          else (case answer of Some entered \<Rightarrow> entered | None \<Rightarrow> [])
      | None \<Rightarrow> (case answer of Some entered \<Rightarrow> entered | None \<Rightarrow> [])) \<and>
   localStorage (snd (apiKey [] answer b)) =
     (if fst (apiKey [] answer b) \<noteq> []
      then (localStorage b)(''tmp::voice_api_key'' \<mapsto> fst (apiKey [] answer b))
      else localStorage b) \<and>
   localStorage (resetAPIKey (Some entered) b) = [''tmp::voice_api_key'' \<mapsto> entered] \<and>
   effects (resetAPIKey (Some entered) b) =
     effects b @ [Prompt ''OpenAI API Key'', LocalStorage_clear,
                  LocalStorage_setItem ''tmp::voice_api_key'' entered, Location_reload] \<and>
   localStorage (resetAPIKey None b) = localStorage b \<and>
   effects (resetAPIKey None b) = effects b @ [Prompt ''OpenAI API Key''] \<and>
   apiKey (c # url) answer b = ([], b)"
  by (simp add: apiKey_def ask_key_def resetAPIKey_def did_def localStorage_setItem_def
      localStorage_clear_def Let_def split: option.split)

subsection \<open>The render loop\<close>

lemma render_client_drawn:
  "drawn (render_client fr s) = drawn s @
     (if clientCanvas fr then
        (if client_sized fr then [] else [ResizeCanvas client_canvas]) @
        (if clientCtx s then [] else [GetContext client_canvas]) @
        (if clientCtx s \<or> client_getContext fr then
           [ClearRect client_canvas] @
           (if wavRecorder_recording fr then [Recorder_getFrequencies] else []) @
           [DrawBars client_canvas
              (if wavRecorder_recording fr then wavRecorder_values fr else [0])
              ''#4F46E5'' 20 2 16]
         else [])
      else [])"
  by (simp add: render_client_def draws_def Let_def)

lemma render_server_drawn:
  "drawn (render_server fr s) = drawn s @
     (if serverCanvas fr then
        (if server_sized fr then [] else [ResizeCanvas server_canvas]) @
        (if serverCtx s then [] else [GetContext server_canvas]) @
        (if serverCtx s \<or> server_getContext fr then
           [ClearRect server_canvas] @
           (if wavStreamPlayer_analyser fr then [Player_getFrequencies] else []) @
           [DrawBars server_canvas
              (if wavStreamPlayer_analyser fr then wavStreamPlayer_values fr else [0])
              ''#009900'' 10 0 8]
         else [])
      else [])"
  by (simp add: render_server_def draws_def Let_def)

lemma render_client_serverCtx: "serverCtx (render_client fr s) = serverCtx s"
  by (simp add: render_client_def draws_def Let_def)

text \<open>
  The claim as it stands, that on every frame the client canvas is cleared and bars are
  drawn on it, fails on a frame of the loaded loop whose canvases are mounted and give
  no 2D context: the frame asks for the contexts and schedules the next frame, and
  neither clears nor draws. On a frame without mounted canvases only the next frame is
  scheduled.
\<close>

theorem render_without_context:
  "isLoaded loop_start \<and> clientCanvas no_context_frame \<and> serverCanvas no_context_frame \<and>
   wavRecorder_recording no_context_frame \<and>
   drawn (render no_context_frame loop_start) =
     [GetContext client_canvas, GetContext server_canvas, RequestAnimationFrame_render] \<and>
   drawn (render unmounted_frame loop_start) = [RequestAnimationFrame_render]"
  by (simp add: frame_defs render_def render_client_def render_server_def draws_def)

text \<open>
  Claim C7, amended. On every frame of the loaded loop on which both canvases are
  mounted and have a 2D context (kept from an earlier frame or obtained now), the client
  canvas is cleared and its bars are drawn from \<^verbatim>\<open>wavRecorder.getFrequencies('voice')\<close>,
  which is asked exactly when the recorder is recording, and from the array \<open>[0]\<close>
  otherwise; then the server canvas is cleared and its bars are drawn from
  \<^verbatim>\<open>wavStreamPlayer.getFrequencies('voice')\<close>, which is asked exactly when the
  player's analyser exists, and from \<open>[0]\<close> otherwise; then the next frame is requested.
\<close>

theorem render_synchronized:
  assumes "isLoaded s"
    and "clientCanvas fr" and "clientCtx s \<or> client_getContext fr"
    and "serverCanvas fr" and "serverCtx s \<or> server_getContext fr"
  shows "drawn (render fr s) = drawn s @
     (if client_sized fr then [] else [ResizeCanvas client_canvas]) @
     (if clientCtx s then [] else [GetContext client_canvas]) @
     [ClearRect client_canvas] @
     (if wavRecorder_recording fr then [Recorder_getFrequencies] else []) @
     [DrawBars client_canvas
        (if wavRecorder_recording fr then wavRecorder_values fr else [0])
        ''#4F46E5'' 20 2 16] @
     (if server_sized fr then [] else [ResizeCanvas server_canvas]) @
     (if serverCtx s then [] else [GetContext server_canvas]) @
     [ClearRect server_canvas] @
     (if wavStreamPlayer_analyser fr then [Player_getFrequencies] else []) @
     [DrawBars server_canvas
        (if wavStreamPlayer_analyser fr then wavStreamPlayer_values fr else [0])
        ''#009900'' 10 0 8] @
     [RequestAnimationFrame_render]"
proof -
  have "drawn (render fr s) =
          drawn (render_server fr (render_client fr s)) @ [RequestAnimationFrame_render]"
    using assms(1) by (simp add: render_def draws_def)
  also have "drawn (render_server fr (render_client fr s)) =
          drawn (render_client fr s) @
          (if server_sized fr then [] else [ResizeCanvas server_canvas]) @
          (if serverCtx s then [] else [GetContext server_canvas]) @
          [ClearRect server_canvas] @
          (if wavStreamPlayer_analyser fr then [Player_getFrequencies] else []) @
          [DrawBars server_canvas
             (if wavStreamPlayer_analyser fr then wavStreamPlayer_values fr else [0])
             ''#009900'' 10 0 8]"
    using assms(4,5) by (simp add: render_server_drawn render_client_serverCtx)
  also have "drawn (render_client fr s) =
          drawn s @
          (if client_sized fr then [] else [ResizeCanvas client_canvas]) @
          (if clientCtx s then [] else [GetContext client_canvas]) @
          [ClearRect client_canvas] @
          (if wavRecorder_recording fr then [Recorder_getFrequencies] else []) @
          [DrawBars client_canvas
             (if wavRecorder_recording fr then wavRecorder_values fr else [0])
             ''#4F46E5'' 20 2 16]"
    using assms(2,3) by (simp add: render_client_drawn)
  finally show ?thesis by simp
qed

text \<open>The first frame with both canvases, while the user speaks and nothing is played.\<close>

theorem render_synchronized_witness:
  "isLoaded loop_start \<and> clientCanvas speaking_frame \<and> client_getContext speaking_frame \<and>
   serverCanvas speaking_frame \<and> server_getContext speaking_frame \<and>
   drawn (render speaking_frame loop_start) =
     [GetContext client_canvas, ClearRect client_canvas, Recorder_getFrequencies,
      DrawBars client_canvas [0.5, 0.25] ''#4F46E5'' 20 2 16,
      GetContext server_canvas, ClearRect server_canvas,
      DrawBars server_canvas [0] ''#009900'' 10 0 8,
      RequestAnimationFrame_render]"
  using render_synchronized[of loop_start speaking_frame]
  by (simp add: frame_defs)

subsection \<open>The event log\<close>

lemma event_type_count_update:
  "event_type (Some (r\<lparr>count := c\<rparr>)) = event_type (Some r)"
  by (simp add: event_type_def)

lemma adjacent_equal_truthy_type_snoc:
  "adjacent_equal_truthy_type (xs @ [e]) =
     (adjacent_equal_truthy_type xs \<or>
      (xs \<noteq> [] \<and> truthy (event_type (Some (last xs))) \<and>
       event_type (Some (last xs)) = event_type (Some e)))"
  by (induction xs rule: adjacent_equal_truthy_type.induct) auto

lemma adjacent_equal_truthy_type_replace_last:
  assumes "xs \<noteq> []" and "event_type (Some y) = event_type (Some (last xs))"
  shows "adjacent_equal_truthy_type (butlast xs @ [y]) = adjacent_equal_truthy_type xs"
proof -
  have "adjacent_equal_truthy_type xs = adjacent_equal_truthy_type (butlast xs @ [last xs])"
    using assms(1) by simp
  also have "\<dots> = adjacent_equal_truthy_type (butlast xs @ [y])"
    unfolding adjacent_equal_truthy_type_snoc using assms(2) by simp
  finally show ?thesis by simp
qed

lemma lastEvent_nonempty: "truthy (event_type (lastEvent xs)) \<Longrightarrow> xs \<noteq> []"
  by (auto simp: lastEvent_def event_type_def)

lemma truthy_type_has_event: "truthy (event_type (Some r)) \<Longrightarrow> event r \<noteq> None"
  by (cases "event r") (simp_all add: event_type_def)

lemma updater_merge:
  assumes "prev \<noteq> []" and "truthy (event_type (Some r))"
    and "event_type (Some (last prev)) = event_type (Some r)"
  shows "setRealtimeEvents_updater r prev =
           butlast prev @ [(last prev)\<lparr>count := Some (count_or_1 (count (last prev)) + 1)\<rparr>]"
  using assms by (simp add: setRealtimeEvents_updater_def lastEvent_def)

lemma updater_append:
  assumes "\<not> (prev \<noteq> [] \<and> truthy (event_type (Some r)) \<and>
              event_type (Some (last prev)) = event_type (Some r))"
  shows "setRealtimeEvents_updater r prev = prev @ [r\<lparr>count := Some 1\<rparr>]"
  using assms by (auto simp add: setRealtimeEvents_updater_def lastEvent_def event_type_def)

lemma updater_keeps_no_adjacent:
  assumes "\<not> adjacent_equal_truthy_type prev"
  shows "\<not> adjacent_equal_truthy_type (setRealtimeEvents_updater r prev)"
proof (cases "prev \<noteq> [] \<and> truthy (event_type (Some r)) \<and>
              event_type (Some (last prev)) = event_type (Some r)")
  case True
  then show ?thesis
    using assms
    by (simp add: updater_merge adjacent_equal_truthy_type_replace_last event_type_count_update)
next
  case False
  then show ?thesis
    using assms updater_append[OF False]
    by (auto simp: adjacent_equal_truthy_type_snoc event_type_count_update)
qed

lemma counted_snoc:
  "counted (xs @ [e]) = (counted xs \<and> (case count e of None \<Rightarrow> False | Some n \<Rightarrow> 1 \<le> n))"
  by (simp add: counted_def)

lemma counted_butlast: "counted xs \<Longrightarrow> counted (butlast xs)"
  by (auto simp: counted_def list_all_iff dest: in_set_butlastD)

lemma count_or_1_positive: "counted xs \<Longrightarrow> xs \<noteq> [] \<Longrightarrow> 1 \<le> count_or_1 (count (last xs))"
  by (auto simp: counted_def list_all_iff count_or_1_def split: option.splits dest!: last_in_set)

lemma updater_keeps_counted:
  assumes "counted prev"
  shows "counted (setRealtimeEvents_updater r prev)"
proof (cases "prev \<noteq> [] \<and> truthy (event_type (Some r)) \<and>
              event_type (Some (last prev)) = event_type (Some r)")
  case True
  then have "1 \<le> count_or_1 (count (last prev))"
    using count_or_1_positive[OF assms] by blast
  then show ?thesis
    using True assms by (simp add: updater_merge counted_snoc counted_butlast)
next
  case False
  then show ?thesis
    using assms updater_append[OF False] by (simp add: counted_snoc)
qed

lemma deliver_snoc: "deliver (evs @ [ev]) = fst (on_realtime_event ev (deliver evs))"
  by (simp add: deliver_def)

lemma deliver_invariant:
  "\<not> adjacent_equal_truthy_type (deliver evs) \<and> counted (deliver evs)"
proof (induction evs rule: rev_induct)
  case Nil
  show ?case by (simp add: deliver_def counted_def)
next
  case (snoc ev evs)
  then show ?case
    by (auto simp: deliver_snoc on_realtime_event_def updater_keeps_no_adjacent
        updater_keeps_counted split: option.splits)
qed

text \<open>
  The claim as it stands fails on two events that carry a payload without a
  \<^verbatim>\<open>type\<close>: the second one is appended, not merged, and the log holds two
  neighbours whose \<^verbatim>\<open>event.type\<close> are equal (both undefined).
\<close>

theorem untyped_events_adjacent:
  "deliver [Some untyped_event, Some untyped_event] =
     [untyped_event\<lparr>count := Some 1\<rparr>, untyped_event\<lparr>count := Some 1\<rparr>] \<and>
   event_type (Some untyped_event) = JUndefined \<and>
   adjacent_equal_type (deliver [Some untyped_event, Some untyped_event])"
  by (simp add: event_defs)

text \<open>
  Claim C8, amended. After every sequence of deliveries from the empty log, no two
  neighbours of the log have equal truthy \<^verbatim>\<open>event.type\<close>, and every entry carries a
  count of at least one. On any log, an incoming event whose \<^verbatim>\<open>event.type\<close> is
  truthy and equal to that of the last entry replaces the last entry by itself with its
  count plus one (an absent count counting as 1; a count of 0, which no delivery
  produces, is left aside); every other event that has its
  \<^verbatim>\<open>event\<close> field, also one whose type is missing or falsy, is appended with count 1;
  an event without its \<^verbatim>\<open>event\<close> field, and a missing event, leave the log as it is
  and are warned about.
\<close>

theorem realtime_events_log:
  "\<not> adjacent_equal_truthy_type (deliver evs) \<and> counted (deliver evs) \<and>
   (prev \<noteq> [] \<and> truthy (event_type (Some r)) \<and>
    event_type (Some (last prev)) = event_type (Some r) \<and> count (last prev) \<noteq> Some 0 \<longrightarrow>
      on_realtime_event (Some r) prev =
        (butlast prev @
           [(last prev)\<lparr>count :=
              Some ((case count (last prev) of None \<Rightarrow> 1 | Some c \<Rightarrow> c) + 1)\<rparr>],
         0)) \<and>
   (event r \<noteq> None \<and>
    \<not> (prev \<noteq> [] \<and> truthy (event_type (Some r)) \<and>
       event_type (Some (last prev)) = event_type (Some r)) \<longrightarrow>
      on_realtime_event (Some r) prev = (prev @ [r\<lparr>count := Some 1\<rparr>], 0)) \<and>
   (event r = None \<longrightarrow> on_realtime_event (Some r) prev = (prev, 1)) \<and>
   on_realtime_event None prev = (prev, 1)"
proof -
  have merge: "on_realtime_event (Some r) prev =
        (butlast prev @
           [(last prev)\<lparr>count :=
              Some ((case count (last prev) of None \<Rightarrow> 1 | Some c \<Rightarrow> c) + 1)\<rparr>],
         0)"
    if "prev \<noteq> []" "truthy (event_type (Some r))"
       "event_type (Some (last prev)) = event_type (Some r)" "count (last prev) \<noteq> Some 0"
  proof -
    have "count_or_1 (count (last prev)) = (case count (last prev) of None \<Rightarrow> 1 | Some c \<Rightarrow> c)"
      using that(4) by (simp add: count_or_1_def split: option.splits)
    then show ?thesis
      using that truthy_type_has_event[OF that(2)] updater_merge[OF that(1-3)]
      by (simp add: on_realtime_event_def)
  qed
  have append: "on_realtime_event (Some r) prev = (prev @ [r\<lparr>count := Some 1\<rparr>], 0)"
    if "event r \<noteq> None"
       "\<not> (prev \<noteq> [] \<and> truthy (event_type (Some r)) \<and>
           event_type (Some (last prev)) = event_type (Some r))"
    using that updater_append[OF that(2)] by (simp add: on_realtime_event_def)
  have missing: "on_realtime_event (Some r) prev = (prev, 1)" if "event r = None"
    using that by (simp add: on_realtime_event_def)
  have none: "on_realtime_event None prev = (prev, 1)"
    by (simp add: on_realtime_event_def)
  show ?thesis
    using deliver_invariant[of evs] merge append missing none by blast
qed

text \<open>
  Two \<^verbatim>\<open>session.created\<close> events and one \<^verbatim>\<open>response.audio.delta\<close> event are
  delivered; on the log of one \<^verbatim>\<open>session.created\<close> entry, a second one is merged,
  another type is appended, and an event without payload is dropped.
\<close>

theorem realtime_events_log_witness:
  "deliver [Some created_event, Some created_event, Some delta_event] =
     [created_event\<lparr>count := Some 2\<rparr>, delta_event\<lparr>count := Some 1\<rparr>] \<and>
   \<not> adjacent_equal_truthy_type
       (deliver [Some created_event, Some created_event, Some delta_event]) \<and>
   on_realtime_event (Some created_event) [created_event\<lparr>count := Some 1\<rparr>] =
     ([created_event\<lparr>count := Some 2\<rparr>], 0) \<and>
   on_realtime_event (Some delta_event) [created_event\<lparr>count := Some 1\<rparr>] =
     ([created_event\<lparr>count := Some 1\<rparr>, delta_event\<lparr>count := Some 1\<rparr>], 0) \<and>
   on_realtime_event (Some broken_event) [created_event\<lparr>count := Some 1\<rparr>] =
     ([created_event\<lparr>count := Some 1\<rparr>], 1)"
  using realtime_events_log[of "[Some created_event, Some created_event, Some delta_event]"
          "[created_event\<lparr>count := Some 1\<rparr>]" created_event]
        realtime_events_log[of "[]" "[created_event\<lparr>count := Some 1\<rparr>]" delta_event]
        realtime_events_log[of "[]" "[created_event\<lparr>count := Some 1\<rparr>]" broken_event]
  by (simp add: event_defs)

subsection \<open>The memory tool\<close>

text \<open>
  For every key but \<^verbatim>\<open>__proto__\<close> the handler answers \<^verbatim>\<open>{ ok: true }\<close>, the
  entry of the key is the value, and the entry of every other key is as before.
\<close>

lemma set_memory_other_keys:
  assumes "key \<noteq> ''__proto__''"
  shows "snd (set_memory key v kv0) = \<lparr>ok = True\<rparr> \<and>
         fst (set_memory key v kv0) key = Some v \<and>
         (\<forall>k. k \<noteq> key \<longrightarrow> fst (set_memory key v kv0) k = kv0 k)"
  using assms by (simp add: set_memory_def setMemoryKv_updater_def assign_property_def)

text \<open>
  Claim C9 (for every key and value the handler returns \<^verbatim>\<open>{ ok: true }\<close> and the
  entry of the key becomes the value) at the key \<^verbatim>\<open>__proto__\<close>, on the empty memory:
  the handler returns \<^verbatim>\<open>{ ok: true }\<close>, and the memory is still empty, so the entry of
  the key is not the value.
\<close>

theorem set_memory_proto:
  "set_memory ''__proto__'' ''x'' Map.empty = (Map.empty, \<lparr>ok = True\<rparr>) \<and>
   fst (set_memory ''__proto__'' ''x'' Map.empty) ''__proto__'' \<noteq> Some ''x''"
  by (simp add: set_memory_def setMemoryKv_updater_def assign_property_def)

subsection \<open>The audio levels\<close>

lemma map_over_indexed:
  "length ns = length xs \<Longrightarrow> map (\<lambda>p. f (snd p)) (zip ns xs) = map f xs"
  by (induction ns xs rule: list_induct2) simp_all

lemma levels_while_recording_ident:
  "map ident (levels_while_recording values rnd prev) = map ident prev"
  using map_over_indexed[of "[0..<length prev]" prev ident]
  by (simp add: levels_while_recording_def comp_def case_prod_unfold)

lemma levels_while_idle_ident:
  "map ident (levels_while_idle rnd prev) = map ident prev"
  using map_over_indexed[of "[0..<length prev]" prev ident]
  by (simp add: levels_while_idle_def comp_def case_prod_unfold)

lemma average_of_number: "values \<noteq> [] \<Longrightarrow> \<exists>a. average_of values = Num a"
  by (simp add: average_of_def divide_by_length_def)

lemma recording_level_in_range: "in_range (recording_level (Num a) index r)"
  by (simp add: recording_level_def Let_def)

lemma levels_while_recording_in_range:
  assumes "values \<noteq> []"
  shows "levels_in_range (levels_while_recording values rnd prev)"
proof -
  obtain a where "average_of values = Num a"
    using average_of_number[OF assms] by blast
  then show ?thesis
    by (simp add: levels_in_range_def levels_while_recording_def list_all_iff
        recording_level_in_range case_prod_unfold)
qed

lemma levels_while_idle_in_range:
  assumes "\<forall>i. 0 \<le> rnd i \<and> rnd i < 1"
  shows "levels_in_range (levels_while_idle rnd prev)"
proof -
  have "20 \<le> 20 + rnd i * 5 \<and> 20 + rnd i * 5 \<le> 100" for i
    using assms[rule_format, of i] by simp
  then show ?thesis
    by (simp add: levels_in_range_def levels_while_idle_def list_all_iff case_prod_unfold)
qed

text \<open>The levels the page starts with.\<close>

lemma initial_levels:
  "map level initial_audioLevels = replicate 5 (Num 20) \<and>
   map ident initial_audioLevels = [1, 2, 3, 4, 5] \<and>
   levels_in_range initial_audioLevels"
  by (simp add: initial_audioLevels_def levels_in_range_def numeral_eq_Suc)

lemma map_over_indices:
  "length ns = length xs \<Longrightarrow> map (\<lambda>p. f (fst p)) (zip ns xs) = map f ns"
  by (induction ns xs rule: list_induct2) simp_all

lemma levels_while_idle_level:
  "map level (levels_while_idle rnd prev) =
     map (\<lambda>i. Num (20 + rnd i * 5)) [0..<length prev]"
  using map_over_indices[of "[0..<length prev]" prev "\<lambda>i. Num (20 + rnd i * 5)"]
  by (simp add: levels_while_idle_def comp_def case_prod_unfold)

lemma recording_level_clamped:
  "\<exists>x. recording_level (Num a) index r = Num (min 100 (max 20 x))"
proof -
  have "recording_level (Num a) index r =
          Num (min 100 (max 20
                 (min 100 (max 20 (a * 150 + real index * 10)) + (r * 20 - 10))))"
    by (simp add: recording_level_def Let_def)
  then show ?thesis by blast
qed

lemma levels_while_recording_clamped:
  assumes "values \<noteq> []" and "l \<in> set (levels_while_recording values rnd prev)"
  shows "\<exists>x. level l = Num (min 100 (max 20 x))"
proof -
  obtain a where a: "average_of values = Num a"
    using average_of_number[OF assms(1)] by blast
  from assms(2) obtain index where "level l = recording_level (Num a) index (rnd index)"
    by (auto simp add: levels_while_recording_def a)
  then show ?thesis
    using recording_level_clamped[of a index "rnd index"] by simp
qed

text \<open>
  A step of \<^verbatim>\<open>updateAudioLevels\<close> keeps the ids and their order. When
  \<^verbatim>\<open>Math.random()\<close> gives numbers of \<open>[0, 1)\<close> and the analysis of the recorder has
  at least one value, it also keeps every level in \<open>[20, 100]\<close>.
\<close>

lemma updateAudioLevels_ident:
  "map ident (audioLevels (world_of (updateAudioLevels env w))) = map ident (audioLevels w)"
  by (simp add: updateAudioLevels_def statement_defs levels_while_recording_ident
      levels_while_idle_ident split: option.split)

lemma updateAudioLevels_in_range:
  assumes "\<forall>i. 0 \<le> random env i \<and> random env i < 1"
    and "recorder_frequencies env \<noteq> Some []"
    and "levels_in_range (audioLevels w)"
  shows "levels_in_range (audioLevels (world_of (updateAudioLevels env w)))"
  using assms
  by (auto simp add: updateAudioLevels_def statement_defs levels_while_recording_in_range
      levels_while_idle_in_range split: option.split)

lemma updateAudioLevels_recording:
  assumes "has_wavRecorder env" and "recorder_recording env"
    and "recorder_frequencies env = Some values" and "values \<noteq> []"
    and "l \<in> set (audioLevels (world_of (updateAudioLevels env w)))"
  shows "\<exists>x. level l = Num (min 100 (max 20 x))"
proof -
  have "audioLevels (world_of (updateAudioLevels env w)) =
          levels_while_recording values (random env) (audioLevels w)"
    using assms(1-3) by (simp add: updateAudioLevels_def statement_defs)
  with assms(4,5) show ?thesis
    using levels_while_recording_clamped by simp
qed

lemma updateAudioLevels_idle:
  assumes "\<not> (has_wavRecorder env \<and> recorder_recording env)"
  shows "map level (audioLevels (world_of (updateAudioLevels env w))) =
           map (\<lambda>i. Num (20 + random env i * 5)) [0..<length (audioLevels w)]"
  using assms by (auto simp add: updateAudioLevels_def statement_defs levels_while_idle_level)

lemma frames_snoc:
  "frames (envs @ [env]) w = world_of (updateAudioLevels env (frames envs w))"
  by (simp add: frames_def)

lemma frames_keep_levels:
  assumes "\<forall>env \<in> set envs. (\<forall>i. 0 \<le> random env i \<and> random env i < 1) \<and>
                              recorder_frequencies env \<noteq> Some []"
    and "levels_in_range (audioLevels w)"
  shows "levels_in_range (audioLevels (frames envs w)) \<and>
         map ident (audioLevels (frames envs w)) = map ident (audioLevels w)"
  using assms(1)
proof (induction envs rule: rev_induct)
  case Nil
  show ?case using assms(2) by (simp add: frames_def)
next
  case (snoc env envs)
  then have before: "levels_in_range (audioLevels (frames envs w))"
    and ids: "map ident (audioLevels (frames envs w)) = map ident (audioLevels w)"
    by simp_all
  from snoc.prems have env: "\<forall>i. 0 \<le> random env i \<and> random env i < 1"
    "recorder_frequencies env \<noteq> Some []" by simp_all
  show ?case
    using updateAudioLevels_in_range[OF env before] updateAudioLevels_ident[of env "frames envs w"] ids
    by (simp add: frames_snoc)
qed

text \<open>
  Claim C10. The page starts with five levels of 20 with the ids 1 to 5. The analysis of
  the recorder comes from the wav tools, which are not part of the page: it is taken as
  it is given, an array with at least one value, and \<^verbatim>\<open>Math.random()\<close> gives numbers
  of \<open>[0, 1)\<close>. Then every step of \<^verbatim>\<open>updateAudioLevels\<close> on levels within
  \<open>[20, 100]\<close> keeps the ids and their order and leaves every level within
  \<open>[20, 100]\<close>: while the recorder is recording and gives an analysis, every new level is
  a number clamped by \<^verbatim>\<open>Math.min(100, Math.max(20, ..))\<close>; while it is not recording,
  the level at index \<open>i\<close> is 20 plus five times the random number drawn for \<open>i\<close>, which
  is less than 5; and after any number of frames from the mounted page the five ids are
  there in their order and every level is within \<open>[20, 100]\<close>.
\<close>

theorem updateAudioLevels_keeps_levels:
  assumes "\<forall>i. 0 \<le> random env i \<and> random env i < 1"
    and "recorder_frequencies env \<noteq> Some []"
    and "levels_in_range (audioLevels w)"
  shows "map ident (audioLevels (world_of (updateAudioLevels env w))) =
           map ident (audioLevels w) \<and>
         levels_in_range (audioLevels (world_of (updateAudioLevels env w))) \<and>
         (has_wavRecorder env \<and> recorder_recording env \<and>
          recorder_frequencies env \<noteq> None \<longrightarrow>
            (\<forall>l \<in> set (audioLevels (world_of (updateAudioLevels env w))).
               \<exists>x. level l = Num (min 100 (max 20 x)))) \<and>
         (\<not> (has_wavRecorder env \<and> recorder_recording env) \<longrightarrow>
            map level (audioLevels (world_of (updateAudioLevels env w))) =
              map (\<lambda>i. Num (20 + random env i * 5)) [0..<length (audioLevels w)] \<and>
            (\<forall>i. 0 \<le> random env i * 5 \<and> random env i * 5 < 5)) \<and>
         map level (audioLevels initial_world) = replicate 5 (Num 20) \<and>
         map ident (audioLevels initial_world) = [1, 2, 3, 4, 5] \<and>
         ((\<forall>e \<in> set envs. (\<forall>i. 0 \<le> random e i \<and> random e i < 1) \<and>
                          recorder_frequencies e \<noteq> Some []) \<longrightarrow>
            levels_in_range (audioLevels (frames envs initial_world)) \<and>
            map ident (audioLevels (frames envs initial_world)) = [1, 2, 3, 4, 5])"
proof -
  have ids: "map ident (audioLevels (world_of (updateAudioLevels env w))) =
           map ident (audioLevels w)"
    by (rule updateAudioLevels_ident)
  have range: "levels_in_range (audioLevels (world_of (updateAudioLevels env w)))"
    by (rule updateAudioLevels_in_range[OF assms])
  have recording: "\<forall>l \<in> set (audioLevels (world_of (updateAudioLevels env w))).
               \<exists>x. level l = Num (min 100 (max 20 x))"
    if "has_wavRecorder env" "recorder_recording env" "recorder_frequencies env \<noteq> None"
  proof -
    from that(3) assms(2) obtain vs
      where "recorder_frequencies env = Some vs" "vs \<noteq> []" by auto
    then show ?thesis
      using updateAudioLevels_recording[OF that(1,2)] by blast
  qed
  have idle: "map level (audioLevels (world_of (updateAudioLevels env w))) =
              map (\<lambda>i. Num (20 + random env i * 5)) [0..<length (audioLevels w)]"
    if "\<not> (has_wavRecorder env \<and> recorder_recording env)"
    using that by (rule updateAudioLevels_idle)
  have below: "0 \<le> random env i * 5 \<and> random env i * 5 < 5" for i
    using assms(1)[rule_format, of i] by simp
  have start: "map level (audioLevels initial_world) = replicate 5 (Num 20)"
    "map ident (audioLevels initial_world) = [1, 2, 3, 4, 5]"
    "levels_in_range (audioLevels initial_world)"
    using initial_levels by (simp_all add: initial_world_def)
  have run: "levels_in_range (audioLevels (frames envs initial_world)) \<and>
            map ident (audioLevels (frames envs initial_world)) = [1, 2, 3, 4, 5]"
    if "\<forall>e \<in> set envs. (\<forall>i. 0 \<le> random e i \<and> random e i < 1) \<and>
                          recorder_frequencies e \<noteq> Some []"
    using frames_keep_levels[OF that start(3)] start(2) by simp
  from ids range recording idle below start(1,2) run show ?thesis by blast
qed

text \<open>
  A frame while the recorder is recording with the analysis \<open>[0.2, 0.4]\<close>, followed by
  a frame while it is not: the levels go to 100 and then to 22.5.
\<close>

theorem updateAudioLevels_keeps_levels_witness:
  "(\<forall>i. 0 \<le> random recording_env i \<and> random recording_env i < 1) \<and>
   recorder_frequencies recording_env = Some [0.2, 0.4] \<and>
   levels_in_range (audioLevels initial_world) \<and>
   has_wavRecorder recording_env \<and> recorder_recording recording_env \<and>
   \<not> recorder_recording quiet_env \<and>
   map level (audioLevels (world_of (updateAudioLevels recording_env initial_world))) =
     [Num 100, Num 100, Num 100, Num 100, Num 100] \<and>
   map ident (audioLevels (world_of (updateAudioLevels recording_env initial_world))) =
     [1, 2, 3, 4, 5] \<and>
   map level (audioLevels (frames [recording_env, quiet_env] initial_world)) =
     [Num (45 / 2), Num (45 / 2), Num (45 / 2), Num (45 / 2), Num (45 / 2)] \<and>
   levels_in_range (audioLevels (frames [recording_env, quiet_env] initial_world))"
  using updateAudioLevels_keeps_levels[of recording_env initial_world "[recording_env, quiet_env]"]
        updateAudioLevels_keeps_levels[of quiet_env initial_world "[]"]
  by (simp add: updateAudioLevels_def statement_defs example_defs frames_def
      levels_while_recording_def levels_while_idle_def average_of_def divide_by_length_def
      recording_level_def levels_in_range_def upt_rec Let_def)

end
